theory Spec2Isabelle
  imports Complex_Main
begin

section \<open>MindMate: text classification, polarity scoring and mood aggregation\<close>

text \<open>
  A shallow embedding of \<^verbatim>\<open>journal.py\<close>, \<^verbatim>\<open>chatbot.py\<close>, \<^verbatim>\<open>mood_plot.py\<close> and the
  chat and journal handlers of \<^verbatim>\<open>app.py\<close>.

  Conventions of the model.
  \<^item> A Python \<^verbatim>\<open>str\<close> is a list of code points. The code points of the model are
    U+0000 to U+00FF, one for each \<^typ>\<open>char\<close>, and the two code points beyond them
    that the program itself writes: the right single quotation mark U+2019 and the em
    dash U+2014. \<^verbatim>\<open>str.lower\<close>, \<^verbatim>\<open>str.strip\<close> and the regular expression class
    \<^verbatim>\<open>\w\<close> are written out for exactly these code points.
  \<^item> A Python \<^verbatim>\<open>float\<close> is a \<^typ>\<open>rat\<close>: the quotient of two token counts is kept
    exact instead of rounded to the nearest double. The comparisons with the thresholds
    give the same answer as in double arithmetic as long as a text has fewer than
    \<open>10\<^sup>1\<^sup>5\<close> counted tokens.
  \<^item> The sentiment primitive of the TextBlob library is not code of this program; it
    is a parameter \<open>blob\<close> of every function that calls it.
\<close>

subsection \<open>Text primitives of the language\<close>

datatype uchar =
    Ch char  \<comment> \<open>the code point with the number of the character, U+0000 to U+00FF\<close>
  | Rsquo    \<comment> \<open>U+2019, right single quotation mark\<close>
  | Mdash    \<comment> \<open>U+2014, em dash\<close>

type_synonym pystr = "uchar list"

abbreviation py :: "string \<Rightarrow> pystr" where
  \<comment> \<open>a text of code points up to U+00FF, written as a string literal\<close>
  "py s \<equiv> map Ch s"

fun lower_char :: "uchar \<Rightarrow> uchar" where
  \<comment> \<open>\<^verbatim>\<open>str.lower\<close> on one code point: A to Z, and the capital letters U+00C0 to U+00DE
      except the multiplication sign U+00D7, move up by 32; the two punctuation marks
      have no case.\<close>
  "lower_char (Ch c) =
     (let n = (of_char c :: nat) in
      if (65 \<le> n \<and> n \<le> 90) \<or> (192 \<le> n \<and> n \<le> 214) \<or> (216 \<le> n \<and> n \<le> 222)
      then Ch (char_of (n + 32)) else Ch c)"
| "lower_char Rsquo = Rsquo"
| "lower_char Mdash = Mdash"

definition lower :: "pystr \<Rightarrow> pystr" where
  "lower s = map lower_char s"

fun is_space :: "uchar \<Rightarrow> bool" where
  \<comment> \<open>\<^verbatim>\<open>str.isspace\<close>: tab to carriage return, the separators U+001C to U+001F, the
      space, next line U+0085 and the no-break space U+00A0.\<close>
  "is_space (Ch c) =
     (let n = (of_char c :: nat) in
      (9 \<le> n \<and> n \<le> 13) \<or> (28 \<le> n \<and> n \<le> 32) \<or> n = 133 \<or> n = 160)"
| "is_space Rsquo = False"
| "is_space Mdash = False"

definition strip :: "pystr \<Rightarrow> pystr" where
  "strip s = rev (dropWhile is_space (rev (dropWhile is_space s)))"

fun is_word :: "uchar \<Rightarrow> bool" where
  \<comment> \<open>The class \<^verbatim>\<open>\w\<close> of a \<^verbatim>\<open>str\<close> pattern: alphanumeric code points and the
      underscore. The two punctuation marks are neither.\<close>
  "is_word (Ch c) =
     (let n = (of_char c :: nat) in
      (48 \<le> n \<and> n \<le> 57) \<or> (65 \<le> n \<and> n \<le> 90) \<or> n = 95 \<or> (97 \<le> n \<and> n \<le> 122) \<or>
      n = 170 \<or> n = 178 \<or> n = 179 \<or> n = 181 \<or> n = 185 \<or> n = 186 \<or>
      (188 \<le> n \<and> n \<le> 190) \<or> (192 \<le> n \<and> n \<le> 214) \<or> (216 \<le> n \<and> n \<le> 246) \<or>
      (248 \<le> n \<and> n \<le> 255))"
| "is_word Rsquo = False"
| "is_word Mdash = False"

fun is_prefix :: "pystr \<Rightarrow> pystr \<Rightarrow> bool" where
  "is_prefix [] t = True"
| "is_prefix (p # ps) [] = False"
| "is_prefix (p # ps) (c # cs) = (p = c \<and> is_prefix ps cs)"

fun contains :: "pystr \<Rightarrow> pystr \<Rightarrow> bool" where
  \<comment> \<open>\<^verbatim>\<open>p in text\<close>\<close>
  "contains [] p = (p = [])"
| "contains (c # cs) p = (is_prefix p (c # cs) \<or> contains cs p)"

subsection \<open>The regular expressions of the program\<close>

text \<open>
  The fragment of \<^verbatim>\<open>re\<close> that the program uses: literals, sequence, alternation, the
  greedy optional group, the word boundary \<^verbatim>\<open>\b\<close> and the greedy \<^verbatim>\<open>\w+\<close>. A cursor
  is a position in the text: the character before it, if any, and the text from it on.
  \<open>rx_run\<close> lists the cursors where a match that starts at the given cursor can end,
  in the order in which the backtracking matcher tries them.
\<close>

datatype rx = Lit pystr | Seq rx rx | Alt rx rx | Opt rx | WordB | WordPlus

type_synonym cursor = "uchar option \<times> pystr"

fun lit_run :: "pystr \<Rightarrow> cursor \<Rightarrow> cursor list" where
  "lit_run [] cur = [cur]"
| "lit_run (p # ps) (prev, []) = []"
| "lit_run (p # ps) (prev, c # cs) = (if p = c then lit_run ps (Some c, cs) else [])"

fun word_before :: "cursor \<Rightarrow> bool" where
  "word_before (None, rest) = False"
| "word_before (Some c, rest) = is_word c"

fun word_after :: "cursor \<Rightarrow> bool" where
  "word_after (prev, []) = False"
| "word_after (prev, c # cs) = is_word c"

definition at_boundary :: "cursor \<Rightarrow> bool" where
  "at_boundary cur = (word_before cur \<noteq> word_after cur)"

fun word_runs :: "cursor \<Rightarrow> cursor list" where
  \<comment> \<open>\<^verbatim>\<open>\w+\<close>, the longest run first\<close>
  "word_runs (prev, []) = []"
| "word_runs (prev, c # cs) =
     (if is_word c then word_runs (Some c, cs) @ [(Some c, cs)] else [])"

fun rx_run :: "rx \<Rightarrow> cursor \<Rightarrow> cursor list" where
  "rx_run (Lit s) cur = lit_run s cur"
| "rx_run (Seq a b) cur = concat (map (rx_run b) (rx_run a cur))"
| "rx_run (Alt a b) cur = rx_run a cur @ rx_run b cur"
| "rx_run (Opt a) cur = rx_run a cur @ [cur]"
| "rx_run WordB cur = (if at_boundary cur then [cur] else [])"
| "rx_run WordPlus cur = word_runs cur"

definition re_match :: "rx \<Rightarrow> pystr \<Rightarrow> bool" where
  \<comment> \<open>\<^verbatim>\<open>bool(re.match(p, text))\<close>: a match at the start of the text\<close>
  "re_match p text = (rx_run p (None, text) \<noteq> [])"

fun search_from :: "rx \<Rightarrow> cursor \<Rightarrow> bool" where
  "search_from p (prev, []) = (rx_run p (prev, []) \<noteq> [])"
| "search_from p (prev, c # cs) =
     (rx_run p (prev, c # cs) \<noteq> [] \<or> search_from p (Some c, cs))"

definition re_search :: "rx \<Rightarrow> pystr \<Rightarrow> bool" where
  \<comment> \<open>\<^verbatim>\<open>bool(re.search(p, text))\<close>: a match at some position of the text\<close>
  "re_search p text = search_from p (None, text)"

function findall_from :: "rx \<Rightarrow> cursor \<Rightarrow> pystr list" where
  "findall_from p (prev, rest) =
     (case rx_run p (prev, rest) of
        [] \<Rightarrow> (case rest of [] \<Rightarrow> [] | c # cs \<Rightarrow> findall_from p (Some c, cs))
      | (prev', rest') # _ \<Rightarrow>
          if length rest' < length rest
          then take (length rest - length rest') rest # findall_from p (prev', rest')
          else [] # (case rest of [] \<Rightarrow> [] | c # cs \<Rightarrow> findall_from p (Some c, cs)))"
  by pat_completeness auto
termination
  by (relation "measure (\<lambda>(p, prev, rest). length rest)") auto

definition re_findall :: "rx \<Rightarrow> pystr \<Rightarrow> pystr list" where
  \<comment> \<open>\<^verbatim>\<open>re.findall(p, text)\<close> for a pattern without groups: the matched pieces, left to
      right, each search resuming where the last match ended. The first cursor of
      \<open>rx_run\<close> is the match the backtracking matcher returns.\<close>
  "re_findall p text = findall_from p (None, text)"

subsection \<open>journal.py\<close>

definition POSITIVE_WORDS :: "pystr set" where
  "POSITIVE_WORDS =
     {py ''happy'', py ''joy'', py ''joyful'', py ''good'', py ''great'', py ''love'', py ''excited'',
      py ''wonderful'', py ''delighted'', py ''content'', py ''fortunate'', py ''grateful'', py ''calm''}"

definition NEGATIVE_WORDS :: "pystr set" where
  "NEGATIVE_WORDS =
     {py ''sad'', py ''depressed'', py ''down'', py ''angry'', py ''frustrated'', py ''unhappy'',
      py ''anxious'', py ''nervous'', py ''worried'', py ''bad'', py ''upset'', py ''fear'', py ''lonely'',
      py ''hopeless''}"

definition token_rx :: rx where
  \<comment> \<open>\<^verbatim>\<open>r"\b\w+\b"\<close>\<close>
  "token_rx = Seq WordB (Seq WordPlus WordB)"

definition mood_of :: "rat \<Rightarrow> pystr" where
  \<comment> \<open>the mood category of \<open>analyze_emotion\<close>\<close>
  "mood_of polarity =
     (if polarity > 1 / 10 then py ''positive''
      else if polarity < - (1 / 10) then py ''negative''
      else py ''neutral'')"

definition analyze_emotion :: "pystr \<Rightarrow> pystr \<times> rat" where
  "analyze_emotion entry_text =
     (let tokens = re_findall token_rx (lower entry_text);
          pos_count = (\<Sum>token \<leftarrow> filter (\<lambda>token. token \<in> POSITIVE_WORDS) tokens. (1::int));
          neg_count = (\<Sum>token \<leftarrow> filter (\<lambda>token. token \<in> NEGATIVE_WORDS) tokens. (1::int));
          total = pos_count + neg_count;
          polarity = (if total = 0 then 0 else of_int (pos_count - neg_count) / of_int total)
      in (mood_of polarity, polarity))"

subsection \<open>chatbot.py: the classifier\<close>

definition POS_THRESHOLD :: rat where
  "POS_THRESHOLD = 3 / 10"

definition NEG_THRESHOLD :: rat where
  "NEG_THRESHOLD = - (3 / 10)"

definition get_emotion :: "(pystr \<Rightarrow> rat) \<Rightarrow> pystr \<Rightarrow> pystr" where
  \<comment> \<open>\<open>blob text\<close> stands for \<^verbatim>\<open>TextBlob(text).sentiment.polarity\<close>\<close>
  "get_emotion blob text =
     (let polarity = blob text in
      if polarity > POS_THRESHOLD then py ''positive''
      else if polarity < NEG_THRESHOLD then py ''negative''
      else py ''neutral'')"

definition contains_any :: "pystr \<Rightarrow> pystr list \<Rightarrow> bool" where
  "contains_any text phrases = list_ex (\<lambda>p. contains text p) phrases"

definition question_rx :: rx where
  \<comment> \<open>\<^verbatim>\<open>r"\b(what|why|how|when|where|who|can|should|could|would|is|are|do|does)\b"\<close>\<close>
  "question_rx =
     Seq WordB (Seq
       (Alt (Lit (py ''what'')) (Alt (Lit (py ''why'')) (Alt (Lit (py ''how'')) (Alt (Lit (py ''when''))
       (Alt (Lit (py ''where'')) (Alt (Lit (py ''who'')) (Alt (Lit (py ''can'')) (Alt (Lit (py ''should''))
       (Alt (Lit (py ''could'')) (Alt (Lit (py ''would'')) (Alt (Lit (py ''is'')) (Alt (Lit (py ''are''))
       (Alt (Lit (py ''do'')) (Lit (py ''does'')))))))))))))))
       WordB)"

definition question_like :: "pystr \<Rightarrow> bool" where
  "question_like text = (if contains text (py ''?'') then True else re_match question_rx text)"

fun seq :: "rx list \<Rightarrow> rx" where
  \<comment> \<open>the pieces of a pattern, one after the other\<close>
  "seq [] = Lit []"
| "seq (r # rs) = Seq r (seq rs)"

definition positive_terms :: "pystr list" where
  "positive_terms =
     [py ''happy'', py ''good'', py ''great'', py ''excited'', py ''okay'', py ''ok'', py ''fine'', py ''positive'',
      py ''calm'', py ''content'']"

definition negative_terms :: "pystr list" where
  "negative_terms =
     [py ''sad'', py ''down'', py ''depressed'', py ''anxious'', py ''angry'', py ''stressed'', py ''worried'',
      py ''upset'']"

definition so_that :: rx where
  \<comment> \<open>\<^verbatim>\<open>(?:so |that )?\<close>\<close>
  "so_that = Opt (Alt (Lit (py ''so '')) (Lit (py ''that '')))"

definition patterns :: "pystr \<Rightarrow> rx list" where
  \<comment> \<open>The five patterns built for a term \<open>t\<close>. Every term is a word of letters a to z,
      which \<^verbatim>\<open>re.escape\<close> leaves as it is.\<close>
  "patterns t =
     [seq [WordB, Lit (py ''not ''), so_that, Lit t, WordB],
      seq [WordB, Lit (py ''not feeling ''), so_that, Lit t, WordB],
      seq [WordB, Lit (py ''don't feel ''), so_that, Lit t, WordB],
      seq [WordB, Lit (py ''do not feel ''), so_that, Lit t, WordB],
      seq [WordB, Lit (py ''no longer ''), Opt (seq [Lit (py ''feel''), Opt (Lit (py ''ing'')), Lit (py '' '')]),
           Lit t, WordB]]"

definition has_negated :: "pystr \<Rightarrow> pystr list \<Rightarrow> bool" where
  \<comment> \<open>the local function \<^verbatim>\<open>_has_negated\<close>, with the text it reads as an argument\<close>
  "has_negated text terms =
     list_ex (\<lambda>t. list_ex (\<lambda>p. re_search p text) (patterns t)) terms"

record ctx =
  emotion :: pystr
  intent :: pystr

definition detect_intent_and_emotion :: "(pystr \<Rightarrow> rat) \<Rightarrow> pystr \<Rightarrow> ctx" where
  "detect_intent_and_emotion blob user_input =
     (let text = strip (lower user_input);
          emotion0 = get_emotion blob text;
          emotion1 =
            (if has_negated text positive_terms then py ''negative''
             else if has_negated text negative_terms then py ''neutral''
             else emotion0);
          intent1 =
            (if contains_any text
                  [py ''i made'', py ''i built'', py ''i created'', py ''i achieved'', py ''i accomplished'',
                   py ''promotion'', py ''got hired'', py ''won'', py ''passed'', py ''nailed it'',
                   py ''big achievement'', py ''proud of'', py ''shipped'']
             then py ''achievement''
             else if contains_any text [py ''thank you'', py ''thanks'', py ''appreciate it'', py ''grateful'']
             then py ''gratitude''
             else if contains_any text [py ''sorry'', py ''apologies'', py ''my fault'', py ''apologize'']
             then py ''apology''
             else if contains_any text [py ''angry'', py ''mad'', py ''furious'', py ''pissed'', py ''rage'']
             then py ''anger''
             else if contains_any text
                  [py ''tired'', py ''exhausted'', py ''drained'', py ''fatigued'', py ''sleepy'', py ''burnt out'',
                   py ''burned out'']
             then py ''tiredness''
             else if contains_any text [py ''overwhelmed'', py ''too much'', py ''can'' @ [Rsquo] @ py ''t handle'',
                   py ''cant handle'', py ''overloaded'']
             then py ''overwhelm''
             else if contains_any text [py ''confused'', py ''don'' @ [Rsquo] @ py ''t know'', py ''dont know'', py ''unsure'',
                   py ''uncertain'']
             then py ''confusion''
             else if contains_any text [py ''lonely'', py ''alone'', py ''isolated'']
             then py ''loneliness''
             else if contains_any text [py ''anxious'', py ''anxiety'', py ''worried'', py ''stress'', py ''stressed'']
             then py ''anxiety''
             else if contains text (py ''journal'') \<or>
                     contains_any text [py ''write'', py ''diary'', py ''journaling'', py ''notes'']
             then py ''journal''
             else if contains_any text [py ''breathe'', py ''breathing'', py ''grounding'', py ''relax'', py ''calm down'']
             then py ''breathing''
             else if contains_any text
                  [py ''who are you'', py ''what are you'', py ''what can you do'', py ''help me'',
                   py ''how can you help'', py ''what can i do'']
             then py ''capability''
             else if contains_any text
                  [py ''hello'', py ''hi'', py ''hey'', py ''good morning'', py ''good evening'', py ''good afternoon'']
             then py ''greet''
             else py ''none'')
      in \<lparr>emotion = emotion1, intent = intent1\<rparr>)"

subsection \<open>chatbot.py: the canned replies\<close>

definition reply_default :: pystr where
  "reply_default = py ''I'm here to listen. How are you feeling today?''"

definition reply_achievement :: pystr where
  "reply_achievement =
     py ''That'' @ [Rsquo] @ py ''s amazing '' @ [Mdash] @
     py '' congratulations! What part of this achievement makes you most proud?''"

definition reply_gratitude :: pystr where
  "reply_gratitude =
     py ''You'' @ [Rsquo] @ py ''re very welcome. I'' @ [Rsquo] @ py ''m glad to be here for you.''"

definition reply_apology :: pystr where
  "reply_apology =
     py ''It'' @ [Rsquo] @
     py ''s okay to make mistakes. What would help you be kinder to yourself right now?''"

definition reply_anger :: pystr where
  "reply_anger =
     py ''Anger can feel intense. Would a short grounding exercise help you release some of that tension?''"

definition reply_tiredness :: pystr where
  "reply_tiredness =
     py ''You sound worn out. A quick rest, water, or a short walk might help. Want to plan a tiny break?''"

definition reply_overwhelm :: pystr where
  "reply_overwhelm =
     py ''Feeling overwhelmed is tough. Let'' @ [Rsquo] @
     py ''s break things into one small next step'' @ [Mdash] @ py ''what'' @ [Rsquo] @
     py ''s the first doable action?''"

definition reply_confusion :: pystr where
  "reply_confusion =
     py ''It'' @ [Rsquo] @
     py ''s okay to not have all the answers. What options are you considering right now?''"

definition reply_loneliness :: pystr where
  "reply_loneliness =
     py ''You'' @ [Rsquo] @ py ''re not alone. I'' @ [Rsquo] @
     py ''m here with you. Would reaching out to someone or journaling help right now?''"

definition reply_anxiety :: pystr where
  "reply_anxiety =
     py ''Deep breathing can help. Want me to guide you through a short exercise?''"

definition reply_sad :: pystr where
  "reply_sad =
     py ''I'm here for you. Would you like to try a breathing exercise or write a journal entry?''"

definition reply_happy :: pystr where
  "reply_happy = py ''That's wonderful! Want to share what made your day so good?''"

definition reply_journal :: pystr where
  "reply_journal = py ''Sure! Head to the Journal tab and write down your thoughts.''"

definition reply_breathing :: pystr where
  "reply_breathing =
     py ''Try this: inhale for 4, hold for 4, exhale for 6 '' @ [Mdash] @
     py '' repeat 4 times. How do you feel after that?''"

definition reply_capability :: pystr where
  "reply_capability =
     py ''I'' @ [Rsquo] @ py ''m MindMate'' @ [Mdash] @
     py ''here to listen, reflect, and offer gentle suggestions like journaling or simple breathing exercises. What would help most right now?''"

definition reply_greet :: pystr where
  "reply_greet = py ''Hello! How are you feeling right now?''"

definition reply_positive :: pystr where
  "reply_positive =
     py ''I love your positive energy. Would you like to capture this in your journal?''"

definition reply_negative :: pystr where
  "reply_negative =
     py ''That sounds tough. I'm here for you. Want to talk more or write about it?''"

definition reply_question :: pystr where
  "reply_question =
     py ''That'' @ [Rsquo] @
     py ''s a thoughtful question. What outcome would feel right for you? Sometimes writing your thoughts helps clarify.''"

definition reply_generic :: pystr where
  "reply_generic = py ''I'm listening. Tell me a bit more about what'' @ [Rsquo] @ py ''s on your mind.''"

definition get_response :: "(pystr \<Rightarrow> rat) \<Rightarrow> pystr \<Rightarrow> pystr" where
  "get_response blob user_input =
     (if user_input = [] \<or> strip user_input = [] then reply_default
      else
        let text = lower user_input;
            ctx = detect_intent_and_emotion blob text;
            emotion = emotion ctx
        in
        if intent ctx = py ''achievement'' then reply_achievement
        else if intent ctx = py ''gratitude'' then reply_gratitude
        else if intent ctx = py ''apology'' then reply_apology
        else if intent ctx = py ''anger'' then reply_anger
        else if intent ctx = py ''tiredness'' then reply_tiredness
        else if intent ctx = py ''overwhelm'' then reply_overwhelm
        else if intent ctx = py ''confusion'' then reply_confusion
        else if intent ctx = py ''loneliness'' then reply_loneliness
        else if intent ctx = py ''anxiety'' then reply_anxiety
        else if contains_any text [py ''sad'', py ''down'', py ''depressed'', py ''blue''] \<or>
                emotion = py ''negative''
        then reply_sad
        else if contains_any text
                  [py ''happy'', py ''joy'', py ''excited'', py ''great'', py ''good'', py ''awesome'', py ''fantastic'',
                   py ''grateful''] \<or>
                emotion = py ''positive''
        then reply_happy
        else if intent ctx = py ''journal'' then reply_journal
        else if intent ctx = py ''breathing'' then reply_breathing
        else if intent ctx = py ''capability'' then reply_capability
        else if intent ctx = py ''greet'' then reply_greet
        else if emotion = py ''positive'' then reply_positive
        else if emotion = py ''negative'' then reply_negative
        else if question_like text then reply_question
        else reply_generic)"

subsection \<open>chatbot.py: the generative service\<close>


















subsection \<open>mood_plot.py\<close>

datatype db_error = DatabaseError

type_synonym rows = "(pystr \<times> pystr) list"

record chart =
  dates :: "pystr list"
  mood_values :: "int list"

fun mood_values_loop :: "rows \<Rightarrow> int list \<Rightarrow> int list" where
  \<comment> \<open>the loop over the rows, appending to \<^verbatim>\<open>mood_values\<close>\<close>
  "mood_values_loop [] acc = acc"
| "mood_values_loop ((d, mood) # rest) acc =
     (if lower mood = py ''positive'' then mood_values_loop rest (acc @ [1])
      else if lower mood = py ''negative'' then mood_values_loop rest (acc @ [- 1])
      else mood_values_loop rest (acc @ [0]))"

definition plot_mood_trend :: "rows option \<Rightarrow> rows option \<Rightarrow> db_error + (pystr option \<times> chart option)" where
  \<comment> \<open>The arguments are what the two queries fetch, in the order of the query
      (\<^verbatim>\<open>ORDER BY date ASC\<close>), \<open>None\<close> when the query raises. The result is the value
      returned and the chart saved to \<^verbatim>\<open>static/mood_trend.png\<close>, if one is saved. An
      error of the first query is caught; one of the second leaves the function.\<close>
  "plot_mood_trend mood_signals journal_entries =
     (let fetched =
            (case mood_signals of
               None \<Rightarrow> journal_entries
             | Some rs \<Rightarrow> if rs = [] then journal_entries else Some rs)
      in case fetched of
           None \<Rightarrow> Inl DatabaseError
         | Some rows \<Rightarrow>
             if rows = [] then Inr (None, None)
             else Inr (Some (py ''static/mood_trend.png''),
                       Some \<lparr>dates = map fst rows, mood_values = mood_values_loop rows []\<rparr>))"

subsection \<open>app.py: the rows written by a chat turn and by a journal submission\<close>

record mood_signal =
  ms_date :: pystr
  ms_source :: pystr
  ms_content :: pystr
  ms_mood :: pystr
  ms_polarity :: rat

record journal_entry =
  je_date :: pystr
  je_content :: pystr
  je_mood :: pystr
  je_polarity :: rat

definition chat_signal :: "(pystr \<Rightarrow> rat) \<Rightarrow> pystr \<Rightarrow> pystr \<Rightarrow> mood_signal option" where
  \<comment> \<open>The row a chat turn inserts into \<^verbatim>\<open>mood_signals\<close>; \<open>now\<close> is the formatted clock
      reading. An empty prompt is no turn.\<close>
  "chat_signal blob now prompt =
     (if prompt = [] then None
      else
        let ctx0 = detect_intent_and_emotion blob prompt;
            ctx1 = (if contains (lower prompt) (py ''not angry'')
                    then ctx0\<lparr>intent := py ''none'', emotion := py ''neutral''\<rparr> else ctx0)
        in Some \<lparr>ms_date = now, ms_source = py ''chat'', ms_content = prompt,
                 ms_mood = emotion ctx1,
                 ms_polarity =
                   (if emotion ctx1 = py ''positive'' then 1
                    else if emotion ctx1 = py ''negative'' then - 1 else 0)\<rparr>)"

definition journal_submit ::
  "pystr \<Rightarrow> pystr \<Rightarrow> pystr \<Rightarrow> (journal_entry \<times> mood_signal) option" where
  \<comment> \<open>The two rows a submitted journal form inserts; \<open>now1\<close> and \<open>now2\<close> are the two
      clock readings. An entry of white space only is not saved.\<close>
  "journal_submit now1 now2 entry =
     (if strip entry = [] then None
      else
        let (mood, polarity) = analyze_emotion entry
        in Some (\<lparr>je_date = now1, je_content = entry, je_mood = mood, je_polarity = polarity\<rparr>,
                 \<lparr>ms_date = now2, ms_source = py ''journal'', ms_content = entry, ms_mood = mood,
                  ms_polarity = polarity\<rparr>))"

subsection \<open>The wording of the specification\<close>



definition achievement_phrases :: "pystr list" where
  "achievement_phrases =
     [py ''i made'', py ''i built'', py ''i created'', py ''i achieved'', py ''i accomplished'',
      py ''promotion'', py ''got hired'', py ''won'', py ''passed'', py ''nailed it'',
      py ''big achievement'', py ''proud of'', py ''shipped'']"

definition gratitude_phrases :: "pystr list" where
  "gratitude_phrases = [py ''thank you'', py ''thanks'', py ''appreciate it'', py ''grateful'']"

definition intent_rules :: "(pystr \<times> pystr list) list" where
  \<comment> \<open>section 4.1, step 4: the ordered list of phrase-membership rules\<close>
  "intent_rules =
     [(py ''achievement'', achievement_phrases),
      (py ''gratitude'', gratitude_phrases),
      (py ''apology'', [py ''sorry'', py ''apologies'', py ''my fault'', py ''apologize'']),
      (py ''anger'', [py ''angry'', py ''mad'', py ''furious'', py ''pissed'', py ''rage'']),
      (py ''tiredness'',
         [py ''tired'', py ''exhausted'', py ''drained'', py ''fatigued'', py ''sleepy'', py ''burnt out'',
          py ''burned out'']),
      (py ''overwhelm'', [py ''overwhelmed'', py ''too much'', py ''can'' @ [Rsquo] @ py ''t handle'',
                   py ''cant handle'', py ''overloaded'']),
      (py ''confusion'', [py ''confused'', py ''don'' @ [Rsquo] @ py ''t know'', py ''dont know'', py ''unsure'',
                   py ''uncertain'']),
      (py ''loneliness'', [py ''lonely'', py ''alone'', py ''isolated'']),
      (py ''anxiety'', [py ''anxious'', py ''anxiety'', py ''worried'', py ''stress'', py ''stressed'']),
      (py ''journal'', [py ''journal'', py ''write'', py ''diary'', py ''journaling'', py ''notes'']),
      (py ''breathing'', [py ''breathe'', py ''breathing'', py ''grounding'', py ''relax'', py ''calm down'']),
      (py ''capability'',
         [py ''who are you'', py ''what are you'', py ''what can you do'', py ''help me'',
          py ''how can you help'', py ''what can i do'']),
      (py ''greet'',
         [py ''hello'', py ''hi'', py ''hey'', py ''good morning'', py ''good evening'', py ''good afternoon''])]"

fun first_match :: "pystr \<Rightarrow> (pystr \<times> pystr list) list \<Rightarrow> pystr" where
  \<comment> \<open>first match wins, else "none"\<close>
  "first_match text [] = py ''none''"
| "first_match text ((name, phrases) # rules) =
     (if contains_any text phrases then name else first_match text rules)"

definition canned_replies :: "pystr list" where
  \<comment> \<open>the canned strings of the reply selector\<close>
  "canned_replies =
     [reply_default, reply_achievement, reply_gratitude, reply_apology, reply_anger,
      reply_tiredness, reply_overwhelm, reply_confusion, reply_loneliness, reply_anxiety,
      reply_sad, reply_happy, reply_journal, reply_breathing, reply_capability, reply_greet,
      reply_positive, reply_negative, reply_question, reply_generic]"




definition spec_value :: "pystr \<Rightarrow> int" where
  \<comment> \<open>section 4.4: positive = 1, neutral = 0, negative = -1\<close>
  "spec_value label =
     (if label = py ''positive'' then 1 else if label = py ''negative'' then - 1 else 0)"

subsection \<open>Concrete inputs\<close>


section \<open>Properties\<close>

subsection \<open>Lower case\<close>

lemma lower_char_idem: "lower_char (lower_char c) = lower_char c"
  by (cases c) (auto simp: Let_def)

lemma lower_idem: "lower (lower s) = lower s"
  by (simp add: lower_def lower_char_idem)

subsection \<open>The token pattern finds the maximal runs of word characters\<close>

declare findall_from.simps [simp del]











lemma count_ones: "(\<Sum>x\<leftarrow>xs. (1::int)) = int (length xs)"
  by (induction xs) auto

lemma positive_not_negative: "t \<in> POSITIVE_WORDS \<Longrightarrow> t \<notin> NEGATIVE_WORDS"
  by (auto simp: POSITIVE_WORDS_def NEGATIVE_WORDS_def)

lemma analyze_emotion_mood: "fst (analyze_emotion s) = mood_of (snd (analyze_emotion s))"
  by (simp add: analyze_emotion_def Let_def)

lemma mood_of_cases:
  "(mood_of p = py ''positive'' \<longleftrightarrow> p > 1 / 10) \<and>
   (mood_of p = py ''negative'' \<longleftrightarrow> p < - (1 / 10)) \<and>
   (mood_of p = py ''neutral'' \<longleftrightarrow> - (1 / 10) \<le> p \<and> p \<le> 1 / 10)"
  by (auto simp: mood_of_def)

subsection \<open>The polarity scorer\<close>


text \<open>
  Claim C10. For every input string \<open>s\<close>, \<open>analyze_emotion s\<close> equals \<open>analyze_emotion\<close> of
  the lower-cased \<open>s\<close>: the mood and the polarity do not depend on the letter case of the
  input.
\<close>

theorem analyze_emotion_lower: "analyze_emotion (lower s) = analyze_emotion s"
  by (simp add: analyze_emotion_def lower_idem)

text \<open>
  Claim C8, amended. For every text \<open>s\<close> that has at least one token and all of whose
  tokens belong to the positive word set, \<open>analyze_emotion\<close> returns the polarity 1 and
  the mood positive. The tokens are those of the lower-cased text, as the program takes
  them. Every text \<open>t\<close> without a token gets the polarity 0 and the mood neutral.
\<close>

theorem only_positive_tokens:
  assumes "re_findall token_rx (lower s) \<noteq> []"
    and "set (re_findall token_rx (lower s)) \<subseteq> POSITIVE_WORDS"
  shows "analyze_emotion s = (py ''positive'', 1) \<and>
         (re_findall token_rx (lower t) = [] \<longrightarrow> analyze_emotion t = (py ''neutral'', 0))"
proof -
  have none: "re_findall token_rx (lower t) = [] \<longrightarrow> analyze_emotion t = (py ''neutral'', 0)"
    by (simp add: analyze_emotion_def mood_of_def)
  define tokens where "tokens = re_findall token_rx (lower s)"
  from assms have ne: "tokens \<noteq> []" and sub: "set tokens \<subseteq> POSITIVE_WORDS"
    by (simp_all add: tokens_def)
  from sub have pos: "filter (\<lambda>t. t \<in> POSITIVE_WORDS) tokens = tokens"
    by (auto simp: filter_id_conv)
  from sub have neg: "filter (\<lambda>t. t \<in> NEGATIVE_WORDS) tokens = []"
    by (auto simp: filter_empty_conv dest: positive_not_negative)
  from ne have len: "length tokens \<noteq> 0" by simp
  have "analyze_emotion s = (py ''positive'', 1)"
    unfolding analyze_emotion_def tokens_def [symmetric] Let_def pos neg count_ones mood_of_def
    using len by simp
  with none show ?thesis by (intro conjI)
qed

text \<open>
  The hypotheses hold of a text of two positive words; a text of two question marks has
  no token.
\<close>

theorem only_positive_tokens_witness:
  "re_findall token_rx (lower (py ''Happy, calm!'')) \<noteq> [] \<and>
   set (re_findall token_rx (lower (py ''Happy, calm!''))) \<subseteq> POSITIVE_WORDS \<and>
   analyze_emotion (py ''Happy, calm!'') = (py ''positive'', 1) \<and>
   re_findall token_rx (lower (py ''??'')) = [] \<and>
   analyze_emotion (py ''??'') = (py ''neutral'', 0)"
proof -
  have h3: "re_findall token_rx (lower (py ''??'')) = []" by code_simp
  have toks: "re_findall token_rx (lower (py ''Happy, calm!'')) = [py ''happy'', py ''calm'']"
    by code_simp
  have h1: "re_findall token_rx (lower (py ''Happy, calm!'')) \<noteq> []"
    unfolding toks by simp
  have h2: "set (re_findall token_rx (lower (py ''Happy, calm!''))) \<subseteq> POSITIVE_WORDS"
    unfolding toks by (simp add: POSITIVE_WORDS_def)
  from only_positive_tokens [OF h1 h2, of "py ''??''"] h3
  have "analyze_emotion (py ''Happy, calm!'') = (py ''positive'', 1) \<and>
        analyze_emotion (py ''??'') = (py ''neutral'', 0)"
    by blast
  with h1 h2 h3 show ?thesis by blast
qed

text \<open>
  Without a token the claim as stated fails: a text of punctuation only has no token, so
  all of its tokens are positive words, and the branch for \<open>total = 0\<close> gives it the
  polarity 0 and the mood neutral.
\<close>

theorem no_tokens_counterexample:
  "set (re_findall token_rx (lower (py ''...''))) \<subseteq> POSITIVE_WORDS \<and>
   analyze_emotion (py ''...'') = (py ''neutral'', 0)"
proof -
  have toks: "re_findall token_rx (lower (py ''...'')) = []" by code_simp
  have "analyze_emotion (py ''...'') = (py ''neutral'', 0)" by code_simp
  then show ?thesis unfolding toks by simp
qed

text \<open>
  Claim C9. \<open>get_emotion\<close> returns positive exactly when its polarity estimate exceeds
  0.3, negative exactly when it is below -0.3 and neutral otherwise, while
  \<open>analyze_emotion\<close> decides with 0.1 and -0.1. The two pairs of thresholds are distinct:
  a text of three positive and two negative words has the polarity 0.2, which the journal
  scorer calls positive and which \<open>get_emotion\<close>, given the same number as its estimate,
  calls neutral.
\<close>

theorem thresholds_per_call_site:
  "(get_emotion blob text = py ''positive'' \<longleftrightarrow> blob text > 3 / 10) \<and>
   (get_emotion blob text = py ''negative'' \<longleftrightarrow> blob text < - (3 / 10)) \<and>
   (get_emotion blob text = py ''neutral'' \<longleftrightarrow> - (3 / 10) \<le> blob text \<and> blob text \<le> 3 / 10) \<and>
   (fst (analyze_emotion s) = py ''positive'' \<longleftrightarrow> snd (analyze_emotion s) > 1 / 10) \<and>
   (fst (analyze_emotion s) = py ''negative'' \<longleftrightarrow> snd (analyze_emotion s) < - (1 / 10)) \<and>
   (fst (analyze_emotion s) = py ''neutral'' \<longleftrightarrow>
      - (1 / 10) \<le> snd (analyze_emotion s) \<and> snd (analyze_emotion s) \<le> 1 / 10) \<and>
   analyze_emotion (py ''happy happy happy sad sad'') = (py ''positive'', 1 / 5) \<and>
   get_emotion (\<lambda>t. snd (analyze_emotion t)) (py ''happy happy happy sad sad'') = py ''neutral''"
proof -
  have chat: "(get_emotion blob text = py ''positive'' \<longleftrightarrow> blob text > 3 / 10) \<and>
   (get_emotion blob text = py ''negative'' \<longleftrightarrow> blob text < - (3 / 10)) \<and>
   (get_emotion blob text = py ''neutral'' \<longleftrightarrow> - (3 / 10) \<le> blob text \<and> blob text \<le> 3 / 10)"
    by (auto simp: get_emotion_def POS_THRESHOLD_def NEG_THRESHOLD_def Let_def)
  have ex: "analyze_emotion (py ''happy happy happy sad sad'') = (py ''positive'', 1 / 5)"
    by code_simp
  have ex2: "get_emotion (\<lambda>t. snd (analyze_emotion t)) (py ''happy happy happy sad sad'') = py ''neutral''"
    by code_simp
  from chat mood_of_cases [of "snd (analyze_emotion s)"] ex ex2 show ?thesis
    unfolding analyze_emotion_mood by blast
qed

subsection \<open>The classifier\<close>

lemma get_emotion_labels:
  "get_emotion blob text \<in> {py ''positive'', py ''negative'', py ''neutral''}"
  by (simp add: get_emotion_def Let_def)

lemma detect_emotion_labels:
  "emotion (detect_intent_and_emotion blob s) \<in> {py ''positive'', py ''negative'', py ''neutral''}"
  using get_emotion_labels [of blob "strip (lower s)"]
  by (simp add: detect_intent_and_emotion_def Let_def)

lemma detect_intent_first_match:
  "intent (detect_intent_and_emotion blob s) = first_match (strip (lower s)) intent_rules"
  by (simp add: detect_intent_and_emotion_def Let_def intent_rules_def achievement_phrases_def
      gratitude_phrases_def contains_any_def)

lemma detect_intent_names:
  "intent (detect_intent_and_emotion blob s) \<in>
     {py ''achievement'', py ''gratitude'', py ''apology'', py ''anger'', py ''tiredness'', py ''overwhelm'',
      py ''confusion'', py ''loneliness'', py ''anxiety'', py ''journal'', py ''breathing'', py ''capability'',
      py ''greet'', py ''none''}"
  by (simp add: detect_intent_and_emotion_def Let_def)

lemma detect_emotion_override:
  "emotion (detect_intent_and_emotion blob s) =
     (if has_negated (strip (lower s)) positive_terms then py ''negative''
      else if has_negated (strip (lower s)) negative_terms then py ''neutral''
      else get_emotion blob (strip (lower s)))"
  by (simp add: detect_intent_and_emotion_def Let_def)

lemma not_happy_text: "strip (lower (py ''I am not happy today'')) = py ''i am not happy today''"
  by code_simp

lemma not_happy_negated: "has_negated (py ''i am not happy today'') positive_terms"
  by code_simp

lemma not_sad_text: "strip (lower (py ''I am not sad anymore'')) = py ''i am not sad anymore''"
  by code_simp

lemma not_sad_negated:
  "\<not> has_negated (py ''i am not sad anymore'') positive_terms \<and>
   has_negated (py ''i am not sad anymore'') negative_terms"
  by code_simp

lemma negated_examples:
  "has_negated (py ''not happy'') positive_terms \<and>
   has_negated (py ''don't feel good'') positive_terms \<and>
   has_negated (py ''no longer calm'') positive_terms"
  by code_simp

lemma curly_quote_intents:
  "first_match (strip (lower (py ''I can'' @ [Rsquo] @ py ''t handle this''))) intent_rules =
     py ''overwhelm'' \<and>
   first_match (strip (lower (py ''I don'' @ [Rsquo] @ py ''t know''))) intent_rules =
     py ''confusion''"
  by code_simp

text \<open>
  Claim C4. \<open>detect_intent_and_emotion\<close> determines the intent by testing an ordered list
  of phrase-membership rules on the lower-cased, trimmed text, the first match winning,
  in the order achievement, gratitude, apology, anger, tiredness, overwhelm, confusion,
  loneliness, anxiety, journal, breathing, capability, greet, and "none" when no rule
  matches. In particular a text that contains an achievement phrase and a gratitude
  phrase has the intent achievement. The rules hold the phrases of the source, among
  them the two that are written with the right single quotation mark U+2019: the
  inputs "I can't handle this" and "I don't know", typed with that mark in the place
  of the apostrophe, have the intents overwhelm and confusion.
\<close>

theorem intent_order:
  "intent (detect_intent_and_emotion blob s) = first_match (strip (lower s)) intent_rules \<and>
   map fst intent_rules =
     [py ''achievement'', py ''gratitude'', py ''apology'', py ''anger'', py ''tiredness'', py ''overwhelm'',
      py ''confusion'', py ''loneliness'', py ''anxiety'', py ''journal'', py ''breathing'', py ''capability'',
      py ''greet''] \<and>
   (contains_any (strip (lower s)) achievement_phrases \<and>
    contains_any (strip (lower s)) gratitude_phrases \<longrightarrow>
    intent (detect_intent_and_emotion blob s) = py ''achievement'') \<and>
   intent (detect_intent_and_emotion blob (py ''I can'' @ [Rsquo] @ py ''t handle this'')) =
     py ''overwhelm'' \<and>
   intent (detect_intent_and_emotion blob (py ''I don'' @ [Rsquo] @ py ''t know'')) =
     py ''confusion''"
proof (intro conjI impI)
  show "intent (detect_intent_and_emotion blob (py ''I can'' @ [Rsquo] @ py ''t handle this'')) =
     py ''overwhelm''"
    unfolding detect_intent_first_match using curly_quote_intents by blast
  show "intent (detect_intent_and_emotion blob (py ''I don'' @ [Rsquo] @ py ''t know'')) =
     py ''confusion''"
    unfolding detect_intent_first_match using curly_quote_intents by blast
  show "intent (detect_intent_and_emotion blob s) = first_match (strip (lower s)) intent_rules"
    by (rule detect_intent_first_match)
  show "map fst intent_rules =
     [py ''achievement'', py ''gratitude'', py ''apology'', py ''anger'', py ''tiredness'', py ''overwhelm'',
      py ''confusion'', py ''loneliness'', py ''anxiety'', py ''journal'', py ''breathing'', py ''capability'',
      py ''greet'']"
    by (simp add: intent_rules_def)
  assume "contains_any (strip (lower s)) achievement_phrases \<and>
    contains_any (strip (lower s)) gratitude_phrases"
  then show "intent (detect_intent_and_emotion blob s) = py ''achievement''"
    by (simp add: detect_intent_first_match intent_rules_def)
qed

text \<open>A text with the achievement phrase "i made" and the gratitude phrase "thanks".\<close>

theorem intent_order_witness:
  "contains_any (strip (lower (py ''I made it, THANKS!''))) achievement_phrases \<and>
   contains_any (strip (lower (py ''I made it, THANKS!''))) gratitude_phrases \<and>
   intent (detect_intent_and_emotion (\<lambda>t. 0) (py ''I made it, THANKS!'')) = py ''achievement''"
proof -
  have h: "contains_any (strip (lower (py ''I made it, THANKS!''))) achievement_phrases \<and>
    contains_any (strip (lower (py ''I made it, THANKS!''))) gratitude_phrases"
    by code_simp
  from intent_order [of "\<lambda>t. 0" "py ''I made it, THANKS!''"]
  have "contains_any (strip (lower (py ''I made it, THANKS!''))) achievement_phrases \<and>
    contains_any (strip (lower (py ''I made it, THANKS!''))) gratitude_phrases \<longrightarrow>
    intent (detect_intent_and_emotion (\<lambda>t. 0) (py ''I made it, THANKS!'')) = py ''achievement''"
    by (elim conjE)
  with h show ?thesis by blast
qed

text \<open>
  Claim C3. The text is the lower-cased, trimmed input (step 1 of section 4.1). If it
  matches a negated-positive pattern, \<open>detect_intent_and_emotion\<close> returns the emotion
  negative whatever the polarity estimate \<open>blob\<close> says; if it matches a negated-negative
  pattern and no negated-positive one, the emotion is neutral. "I am not happy today"
  yields negative and "I am not sad anymore" yields neutral, for every estimate; and
  "not happy", "don't feel good" and "no longer calm" are negated-positive matches.
\<close>

theorem negation_overrides:
  "(has_negated (strip (lower s)) positive_terms \<longrightarrow>
      emotion (detect_intent_and_emotion blob s) = py ''negative'') \<and>
   (\<not> has_negated (strip (lower s)) positive_terms \<and>
    has_negated (strip (lower s)) negative_terms \<longrightarrow>
      emotion (detect_intent_and_emotion blob s) = py ''neutral'') \<and>
   emotion (detect_intent_and_emotion blob (py ''I am not happy today'')) = py ''negative'' \<and>
   emotion (detect_intent_and_emotion blob (py ''I am not sad anymore'')) = py ''neutral'' \<and>
   has_negated (py ''not happy'') positive_terms \<and>
   has_negated (py ''don't feel good'') positive_terms \<and>
   has_negated (py ''no longer calm'') positive_terms"
proof -
  have happy: "emotion (detect_intent_and_emotion blob (py ''I am not happy today'')) = py ''negative''"
    unfolding detect_emotion_override not_happy_text using not_happy_negated by simp
  have sad: "emotion (detect_intent_and_emotion blob (py ''I am not sad anymore'')) = py ''neutral''"
    unfolding detect_emotion_override not_sad_text using not_sad_negated by simp
  show ?thesis
    using happy sad negated_examples by (simp add: detect_emotion_override)
qed

text \<open>
  Both overrides at work against the estimate: a negated positive term under the
  estimate 1, a negated negative term under the estimate -1.
\<close>

theorem negation_overrides_witness:
  "has_negated (strip (lower (py ''I do NOT feel so good ''))) positive_terms \<and>
   emotion (detect_intent_and_emotion (\<lambda>t. 1) (py ''I do NOT feel so good '')) = py ''negative'' \<and>
   \<not> has_negated (strip (lower (py ''No longer feeling anxious.''))) positive_terms \<and>
   has_negated (strip (lower (py ''No longer feeling anxious.''))) negative_terms \<and>
   emotion (detect_intent_and_emotion (\<lambda>t. - 1) (py ''No longer feeling anxious.'')) = py ''neutral''"
proof -
  have h1: "has_negated (strip (lower (py ''I do NOT feel so good ''))) positive_terms"
    by code_simp
  have h2: "\<not> has_negated (strip (lower (py ''No longer feeling anxious.''))) positive_terms \<and>
      has_negated (strip (lower (py ''No longer feeling anxious.''))) negative_terms"
    by code_simp
  from negation_overrides [of "py ''I do NOT feel so good ''" "\<lambda>t. 1"] h1
  have c1: "emotion (detect_intent_and_emotion (\<lambda>t. 1) (py ''I do NOT feel so good '')) = py ''negative''"
    by blast
  from negation_overrides [of "py ''No longer feeling anxious.''" "\<lambda>t. - 1"] h2
  have c2: "emotion (detect_intent_and_emotion (\<lambda>t. - 1) (py ''No longer feeling anxious.'')) = py ''neutral''"
    by blast
  from h1 h2 c1 c2 show ?thesis by blast
qed

subsection \<open>The reply selector\<close>

lemma canned_nonempty: "r \<in> set canned_replies \<Longrightarrow> r \<noteq> []"
  by (auto simp: canned_replies_def reply_default_def reply_achievement_def reply_gratitude_def
      reply_apology_def reply_anger_def reply_tiredness_def reply_overwhelm_def
      reply_confusion_def reply_loneliness_def reply_anxiety_def reply_sad_def reply_happy_def
      reply_journal_def reply_breathing_def reply_capability_def reply_greet_def
      reply_positive_def reply_negative_def reply_question_def reply_generic_def)

lemma get_response_canned: "get_response blob user_input \<in> set canned_replies"
  by (simp add: get_response_def canned_replies_def Let_def)

lemma strip_empty: "strip [] = []"
  by (simp add: strip_def)

lemma lower_empty: "lower [] = []"
  by (simp add: lower_def)

lemma no_search_in_empty: "\<not> has_negated [] terms"
  by (induction terms) (simp_all add: has_negated_def patterns_def re_search_def so_that_def at_boundary_def)

lemma contains_empty: "contains [] p = (p = [])"
  by simp

text \<open>
  Claim C7. The classifier and the reply generator never fail. The sentiment primitive is
  taken to give the empty text an estimate between the two thresholds (TextBlob gives it
  0); then \<open>detect_intent_and_emotion\<close> maps the empty string to the intent "none" and the
  emotion neutral, and \<open>get_response\<close> answers an empty or white-space-only input \<open>s\<close> with
  the default prompt. On every input \<open>t\<close> the classifier returns one of the three emotion
  labels and one of the fourteen intents, and \<open>get_response\<close> returns a non-empty reply.
\<close>

theorem classifier_never_fails:
  assumes "- (3 / 10) \<le> blob [] \<and> blob [] \<le> 3 / 10" and "strip s = []"
  shows "detect_intent_and_emotion blob [] = \<lparr>emotion = py ''neutral'', intent = py ''none''\<rparr> \<and>
         get_response blob s = py ''I'm here to listen. How are you feeling today?'' \<and>
         emotion (detect_intent_and_emotion blob t) \<in> {py ''positive'', py ''negative'', py ''neutral''} \<and>
         intent (detect_intent_and_emotion blob t) \<in>
           {py ''achievement'', py ''gratitude'', py ''apology'', py ''anger'', py ''tiredness'', py ''overwhelm'',
            py ''confusion'', py ''loneliness'', py ''anxiety'', py ''journal'', py ''breathing'', py ''capability'',
            py ''greet'', py ''none''} \<and>
         get_response blob t \<noteq> []"
proof -
  from assms(1) have emo: "get_emotion blob [] = py ''neutral''"
    by (simp add: get_emotion_def POS_THRESHOLD_def NEG_THRESHOLD_def Let_def)
  have "detect_intent_and_emotion blob [] = \<lparr>emotion = py ''neutral'', intent = py ''none''\<rparr>"
    by (simp add: detect_intent_and_emotion_def Let_def strip_empty lower_empty emo
        no_search_in_empty contains_any_def)
  moreover from assms(2) have "get_response blob s = py ''I'm here to listen. How are you feeling today?''"
    by (simp add: get_response_def reply_default_def)
  moreover have "get_response blob t \<noteq> []"
    using canned_nonempty [OF get_response_canned] .
  ultimately show ?thesis
    using detect_emotion_labels [of blob t] detect_intent_names [of blob t] by blast
qed

text \<open>The estimate that is 0 everywhere, and an input of a space, a tab and a line feed.\<close>

theorem classifier_never_fails_witness:
  "- (3 / 10) \<le> (0::rat) \<and> (0::rat) \<le> 3 / 10 \<and> strip [Ch CHR '' '', Ch (CHR 0x09), Ch (CHR 0x0A)] = [] \<and>
   detect_intent_and_emotion (\<lambda>t. 0) [] = \<lparr>emotion = py ''neutral'', intent = py ''none''\<rparr> \<and>
   get_response (\<lambda>t. 0) [Ch CHR '' '', Ch (CHR 0x09), Ch (CHR 0x0A)] =
     py ''I'm here to listen. How are you feeling today?''"
proof -
  have h1: "- (3 / 10) \<le> (\<lambda>t::pystr. 0::rat) [] \<and> (\<lambda>t::pystr. 0::rat) [] \<le> 3 / 10" by simp
  have h2: "strip [Ch CHR '' '', Ch (CHR 0x09), Ch (CHR 0x0A)] = []" by code_simp
  from classifier_never_fails [OF h1 h2] h1 h2 show ?thesis by simp
qed






subsection \<open>The mood aggregator\<close>

lemma mood_values_loop_map:
  "mood_values_loop rows acc =
     acc @ map (\<lambda>(d, mood). if lower mood = py ''positive'' then 1
                              else if lower mood = py ''negative'' then - 1 else 0) rows"
  by (induction rows acc rule: mood_values_loop.induct) simp_all

lemma mood_values_spec:
  "mood_values_loop rows [] = map (\<lambda>(d, mood). spec_value (lower mood)) rows"
  by (simp add: mood_values_loop_map spec_value_def)

text \<open>
  Claim C5, amended. The rows are the sequence the query fetched, in its order. For
  every non-empty sequence \<open>plot_mood_trend\<close> charts the dates and the numeric series in
  the same order, where a label counts in lower case: a label that is "positive" up to
  letter case gives 1, one that is "negative" up to letter case gives -1, any other
  label gives 0. This holds whether the rows come from \<^verbatim>\<open>mood_signals\<close> or, that table
  being empty or unreadable, from \<^verbatim>\<open>journal_entries\<close>; the sequence of the specification
  yields \<open>[1, -1, 0]\<close>. When no row is fetched the function returns \<open>None\<close> and saves no
  chart.
\<close>

theorem mood_series:
  assumes "rows \<noteq> []"
  shows "plot_mood_trend (Some rows) journal_entries =
           Inr (Some (py ''static/mood_trend.png''),
                Some \<lparr>dates = map fst rows,
                      mood_values = map (\<lambda>(d, mood). spec_value (lower mood)) rows\<rparr>) \<and>
         plot_mood_trend None (Some rows) = plot_mood_trend (Some rows) journal_entries \<and>
         plot_mood_trend (Some []) (Some rows) = plot_mood_trend (Some rows) journal_entries \<and>
         plot_mood_trend (Some []) (Some []) = Inr (None, None) \<and>
         plot_mood_trend None (Some []) = Inr (None, None) \<and>
         plot_mood_trend
           (Some [(py ''t1'', py ''positive''), (py ''t2'', py ''negative''),
                  (py ''t3'', py ''neutral'')])
           journal_entries =
           Inr (Some (py ''static/mood_trend.png''),
                Some \<lparr>dates = [py ''t1'', py ''t2'', py ''t3''], mood_values = [1, - 1, 0]\<rparr>)"
proof -
  have ex: "mood_values_loop
              [(py ''t1'', py ''positive''), (py ''t2'', py ''negative''),
               (py ''t3'', py ''neutral'')] [] = [1, - 1, 0]"
    by code_simp
  have general: "plot_mood_trend (Some rows) journal_entries =
           Inr (Some (py ''static/mood_trend.png''),
                Some \<lparr>dates = map fst rows,
                      mood_values = map (\<lambda>(d, mood). spec_value (lower mood)) rows\<rparr>)"
    using assms by (simp add: plot_mood_trend_def mood_values_spec)
  have fallback: "plot_mood_trend None (Some rows) = plot_mood_trend (Some rows) journal_entries"
    "plot_mood_trend (Some []) (Some rows) = plot_mood_trend (Some rows) journal_entries"
    using assms by (simp_all add: plot_mood_trend_def)
  have empty: "plot_mood_trend (Some []) (Some []) = Inr (None, None)"
    "plot_mood_trend None (Some []) = Inr (None, None)"
    by (simp_all add: plot_mood_trend_def)
  have example: "plot_mood_trend
           (Some [(py ''t1'', py ''positive''), (py ''t2'', py ''negative''),
                  (py ''t3'', py ''neutral'')])
           journal_entries =
           Inr (Some (py ''static/mood_trend.png''),
                Some \<lparr>dates = [py ''t1'', py ''t2'', py ''t3''], mood_values = [1, - 1, 0]\<rparr>)"
    using ex by (simp add: plot_mood_trend_def)
  from general fallback empty example show ?thesis by (intro conjI)
qed

text \<open>Two rows of the mood signal table, one label in capitals; the journal table unreadable.\<close>

theorem mood_series_witness:
  "[(py ''2024-05-01 09:00:00'', py ''NEGATIVE''), (py ''2024-05-02 09:00:00'', py ''positive'')] \<noteq> [] \<and>
   plot_mood_trend
     (Some [(py ''2024-05-01 09:00:00'', py ''NEGATIVE''),
            (py ''2024-05-02 09:00:00'', py ''positive'')])
     None =
     Inr (Some (py ''static/mood_trend.png''),
          Some \<lparr>dates = [py ''2024-05-01 09:00:00'', py ''2024-05-02 09:00:00''],
                mood_values = [- 1, 1]\<rparr>)"
proof -
  let ?rows = "[(py ''2024-05-01 09:00:00'', py ''NEGATIVE''),
                (py ''2024-05-02 09:00:00'', py ''positive'')]"
  have v: "map (\<lambda>(d, mood). spec_value (lower mood)) ?rows = [- 1, 1]" by code_simp
  have h1: "?rows \<noteq> []" by simp
  from mood_series [OF h1, of None] have
    "plot_mood_trend (Some ?rows) None =
       Inr (Some (py ''static/mood_trend.png''),
            Some \<lparr>dates = map fst ?rows,
                  mood_values = map (\<lambda>(d, mood). spec_value (lower mood)) ?rows\<rparr>)"
    by (elim conjE)
  then show ?thesis unfolding v by simp
qed

text \<open>
  The claim as stated, with 0 for every label other than "positive" and "negative",
  fails at the label "Positive": it is another label, and it is charted as 1.
\<close>

theorem capital_label_counterexample:
  "plot_mood_trend (Some [(py ''t1'', py ''Positive'')]) None =
     Inr (Some (py ''static/mood_trend.png''),
          Some \<lparr>dates = [py ''t1''], mood_values = [1]\<rparr>) \<and>
   py ''Positive'' \<noteq> py ''positive'' \<and> py ''Positive'' \<noteq> py ''negative'' \<and>
   spec_value (py ''Positive'') = 0"
  by code_simp

subsection \<open>The stored rows\<close>

lemma chat_signal_cases:
  assumes "chat_signal blob now prompt = Some row"
  shows "(ms_mood row = py ''positive'' \<and> ms_polarity row = 1) \<or>
         (ms_mood row = py ''negative'' \<and> ms_polarity row = - 1) \<or>
         (ms_mood row = py ''neutral'' \<and> ms_polarity row = 0)"
proof -
  from assms detect_emotion_labels [of blob prompt] show ?thesis
    by (auto simp: chat_signal_def Let_def split: if_splits)
qed

text \<open>
  Claim C1, amended. The mood that \<open>analyze_emotion\<close> returns for a text \<open>s\<close> is positive
  exactly when its polarity is above 0.1, negative exactly when it is below -0.1 and
  neutral otherwise; the journal entry and the mood signal that a journal submission
  stores carry this pair. The mood signal \<open>row\<close> of a chat turn carries the polarity 1
  with the label positive, -1 with negative and 0 with neutral, so there the sign and the
  label agree.
\<close>

theorem stored_mood_agrees:
  assumes "journal_submit now1 now2 entry = Some (je, ms)"
    and "chat_signal blob now prompt = Some row"
  shows "(fst (analyze_emotion s) = py ''positive'' \<longleftrightarrow> snd (analyze_emotion s) > 1 / 10) \<and>
         (fst (analyze_emotion s) = py ''negative'' \<longleftrightarrow> snd (analyze_emotion s) < - (1 / 10)) \<and>
         (fst (analyze_emotion s) = py ''neutral'' \<longleftrightarrow>
            - (1 / 10) \<le> snd (analyze_emotion s) \<and> snd (analyze_emotion s) \<le> 1 / 10) \<and>
         (je_mood je, je_polarity je) = analyze_emotion entry \<and>
         (ms_mood ms, ms_polarity ms) = analyze_emotion entry \<and>
         ((ms_mood row = py ''positive'' \<and> ms_polarity row = 1) \<or>
          (ms_mood row = py ''negative'' \<and> ms_polarity row = - 1) \<or>
          (ms_mood row = py ''neutral'' \<and> ms_polarity row = 0))"
proof -
  from assms(1) have "(je_mood je, je_polarity je) = analyze_emotion entry \<and>
         (ms_mood ms, ms_polarity ms) = analyze_emotion entry"
    by (auto simp: journal_submit_def Let_def split: if_splits prod.splits)
  with chat_signal_cases [OF assms(2)] mood_of_cases [of "snd (analyze_emotion s)"]
  show ?thesis unfolding analyze_emotion_mood by blast
qed

text \<open>A journal entry with one positive word and a chat turn with a negated positive term.\<close>

theorem stored_mood_agrees_witness:
  "journal_submit (py ''2024-05-01 09:00:00'') (py ''2024-05-01 09:00:01'') (py ''I feel happy'') =
     Some (\<lparr>je_date = py ''2024-05-01 09:00:00'', je_content = py ''I feel happy'',
             je_mood = py ''positive'', je_polarity = 1\<rparr>,
           \<lparr>ms_date = py ''2024-05-01 09:00:01'', ms_source = py ''journal'',
             ms_content = py ''I feel happy'', ms_mood = py ''positive'', ms_polarity = 1\<rparr>) \<and>
   chat_signal (\<lambda>t. 0) (py ''2024-05-01 09:05:00'') (py ''I am not happy today'') =
     Some \<lparr>ms_date = py ''2024-05-01 09:05:00'', ms_source = py ''chat'',
            ms_content = py ''I am not happy today'', ms_mood = py ''negative'', ms_polarity = - 1\<rparr> \<and>
   analyze_emotion (py ''I feel happy'') = (py ''positive'', 1)"
proof -
  have j: "journal_submit (py ''2024-05-01 09:00:00'') (py ''2024-05-01 09:00:01'') (py ''I feel happy'') =
     Some (\<lparr>je_date = py ''2024-05-01 09:00:00'', je_content = py ''I feel happy'',
             je_mood = py ''positive'', je_polarity = 1\<rparr>,
           \<lparr>ms_date = py ''2024-05-01 09:00:01'', ms_source = py ''journal'',
             ms_content = py ''I feel happy'', ms_mood = py ''positive'', ms_polarity = 1\<rparr>)"
    by code_simp
  have c: "chat_signal (\<lambda>t. 0) (py ''2024-05-01 09:05:00'') (py ''I am not happy today'') =
     Some \<lparr>ms_date = py ''2024-05-01 09:05:00'', ms_source = py ''chat'',
            ms_content = py ''I am not happy today'', ms_mood = py ''negative'', ms_polarity = - 1\<rparr>"
    by code_simp
  from stored_mood_agrees [OF j c, of "py ''I feel happy''"]
  have "(py ''positive'', 1) = analyze_emotion (py ''I feel happy'')" by simp
  with j c show ?thesis by simp
qed

text \<open>
  The sign alone does not decide the label of a journal entry: six positive and five
  negative words give the polarity 1/11, which is positive and not above 0.1, and the
  entry is stored with the label neutral.
\<close>

theorem small_polarity_counterexample:
  "journal_submit (py ''2024-05-01 09:00:00'') (py ''2024-05-01 09:00:01'')
     (py ''happy happy happy happy happy happy sad sad sad sad sad'') =
     Some (\<lparr>je_date = py ''2024-05-01 09:00:00'',
             je_content = py ''happy happy happy happy happy happy sad sad sad sad sad'',
             je_mood = py ''neutral'', je_polarity = 1 / 11\<rparr>,
           \<lparr>ms_date = py ''2024-05-01 09:00:01'', ms_source = py ''journal'',
             ms_content = py ''happy happy happy happy happy happy sad sad sad sad sad'',
             ms_mood = py ''neutral'', ms_polarity = 1 / 11\<rparr>) \<and>
   analyze_emotion (py ''happy happy happy happy happy happy sad sad sad sad sad'') =
     (py ''neutral'', 1 / 11) \<and>
   (0::rat) < 1 / 11"
  by code_simp

end
